theory Spec2Isabelle
  imports Complex_Main "HOL-Library.AList" "HOL-Library.Multiset"
begin

section \<open>JavaScript values and built-ins used by the server\<close>

text \<open>
  The request bodies and socket payloads are JSON objects. A field holds a primitive
  value; a field that is absent reads as \<open>undefined\<close> when the handler destructures
  the object. Numbers are modelled by their exact rational value (JSON carries neither
  NaN nor an infinity; the two zeros are identified). Arrays and nested objects as field
  values are outside this value type.
\<close>

datatype jsval = JUndefined | JNull | JBool bool | JNum rat | JStr string

text \<open>ToBoolean: what \<open>!v\<close> and \<open>v || w\<close> test.\<close>

definition truthy :: "jsval \<Rightarrow> bool" where
  "truthy v =
     (case v of
        JUndefined \<Rightarrow> False
      | JNull \<Rightarrow> False
      | JBool b \<Rightarrow> b
      | JNum q \<Rightarrow> q \<noteq> 0
      | JStr s \<Rightarrow> s \<noteq> [])"

text \<open>The operator \<open>!v\<close>.\<close>

definition js_not :: "jsval \<Rightarrow> bool" where
  "js_not v = (\<not> truthy v)"

text \<open>The expression \<open>v || null\<close>.\<close>

definition orNull :: "jsval \<Rightarrow> jsval" where
  "orNull v = (if truthy v then v else JNull)"

text \<open>
  A JSON object as a finite map from keys to values; \<open>field b k\<close> is what the
  destructuring \<open>const { k } = b\<close> binds.
\<close>

type_synonym jsobject = "string \<rightharpoonup> jsval"

definition field :: "jsobject \<Rightarrow> string \<Rightarrow> jsval" where
  "field b k = (case b k of None \<Rightarrow> JUndefined | Some v \<Rightarrow> v)"

subsection \<open>parseInt\<close>

text \<open>
  \<open>parseInt(v)\<close> with no radix: the argument is converted to a string, leading white
  space is skipped, one sign is read, a prefix \<open>0x\<close> or \<open>0X\<close> selects radix 16, and the
  longest run of digits of the radix is the value; with no digit the result is NaN. The
  result is an integer or NaN, modelled as \<open>int option\<close> with \<open>None\<close> for NaN (minus
  zero is identified with zero, and the value is the exact integer, which is what the
  double holds up to \<open>2 ^ 53\<close>).

  A string is held as the bytes of its UTF-8 encoding. The white space that
  \<open>parseInt\<close> skips is the white space and the line terminators of the language:
  TAB, LF, VT, FF, CR and SP (one byte each, \<open>whiteSpace1\<close>); U+00A0 (two bytes,
  \<open>whiteSpace2\<close>); and U+1680, U+2000 to U+200A, U+2028, U+2029, U+202F, U+205F,
  U+3000 and U+FEFF (three bytes each, \<open>whiteSpace3\<close>). \<open>skipWhiteSpace\<close> removes the
  longest prefix made of these.
\<close>

definition whiteSpace1 :: "int \<Rightarrow> bool" where
  "whiteSpace1 a = (a = 9 \<or> a = 10 \<or> a = 11 \<or> a = 12 \<or> a = 13 \<or> a = 32)"

definition whiteSpace2 :: "int \<Rightarrow> int \<Rightarrow> bool" where
  "whiteSpace2 a b = (a = 194 \<and> b = 160)"

definition whiteSpace3 :: "int \<Rightarrow> int \<Rightarrow> int \<Rightarrow> bool" where
  "whiteSpace3 a b c =
     ((a = 225 \<and> b = 154 \<and> c = 128)
      \<or> (a = 226 \<and> b = 128 \<and> ((128 \<le> c \<and> c \<le> 138) \<or> c = 168 \<or> c = 169 \<or> c = 175))
      \<or> (a = 226 \<and> b = 129 \<and> c = 159)
      \<or> (a = 227 \<and> b = 128 \<and> c = 128)
      \<or> (a = 239 \<and> b = 187 \<and> c = 191))"

fun skipWhiteSpace :: "string \<Rightarrow> string" where
  "skipWhiteSpace (a # b # c # s) =
     (if whiteSpace1 (of_char a) then skipWhiteSpace (b # c # s)
      else if whiteSpace2 (of_char a) (of_char b) then skipWhiteSpace (c # s)
      else if whiteSpace3 (of_char a) (of_char b) (of_char c) then skipWhiteSpace s
      else a # b # c # s)"
| "skipWhiteSpace [a, b] =
     (if whiteSpace1 (of_char a) then skipWhiteSpace [b]
      else if whiteSpace2 (of_char a) (of_char b) then []
      else [a, b])"
| "skipWhiteSpace [a] = (if whiteSpace1 (of_char a) then [] else [a])"
| "skipWhiteSpace [] = []"

definition digitValue :: "char \<Rightarrow> int option" where
  "digitValue c =
     (let n = (of_char c :: int) in
      if 48 \<le> n \<and> n \<le> 57 then Some (n - 48)
      else if 97 \<le> n \<and> n \<le> 122 then Some (n - 87)
      else if 65 \<le> n \<and> n \<le> 90 then Some (n - 55)
      else None)"

definition radixDigit :: "int \<Rightarrow> char \<Rightarrow> bool" where
  "radixDigit R c = (case digitValue c of None \<Rightarrow> False | Some d \<Rightarrow> d < R)"

definition digitsValue :: "int \<Rightarrow> string \<Rightarrow> int" where
  "digitsValue R ds =
     foldl (\<lambda>acc c. acc * R + (case digitValue c of None \<Rightarrow> 0 | Some d \<Rightarrow> d)) 0 ds"

definition stripSign :: "string \<Rightarrow> int \<times> string" where
  "stripSign S =
     (case S of
        [] \<Rightarrow> (1, S)
      | c # t \<Rightarrow>
          if c = CHR ''-'' then (- 1, t)
          else if c = CHR ''+'' then (1, t)
          else (1, S))"

definition stripPrefix :: "string \<Rightarrow> int \<times> string" where
  "stripPrefix S =
     (case S of
        c # x # t \<Rightarrow>
          if c = CHR ''0'' \<and> (x = CHR ''x'' \<or> x = CHR ''X'') then (16, t) else (10, S)
      | _ \<Rightarrow> (10, S))"

definition parseIntString :: "string \<Rightarrow> int option" where
  "parseIntString s =
     (let (sign, S1) = stripSign (skipWhiteSpace s);
          (R, S2) = stripPrefix S1;
          Z = takeWhile (radixDigit R) S2
      in if Z = [] then None else Some (sign * digitsValue R Z))"

text \<open>
  For a number, the string is Number::toString. Between \<open>10 ^ -6\<close> and \<open>10 ^ 21\<close> it is
  the plain decimal expansion, whose integer part parseInt reads; outside that range
  it is in exponent notation and parseInt reads the leading significant digit only
  (\<open>leadInt\<close> for a large number, \<open>leadFrac\<close> for a small fraction \<open>a / b\<close>), taken
  here from the exact value of the number.
\<close>

function leadInt :: "int \<Rightarrow> int" where
  "leadInt n = (if n < 10 then n else leadInt (n div 10))"
  by pat_completeness auto
termination
  by (relation "measure nat") auto

function leadFrac :: "int \<Rightarrow> int \<Rightarrow> int" where
  "leadFrac a b = (if a \<le> 0 \<or> b \<le> a then a div b else leadFrac (a * 10) b)"
  by pat_completeness auto
termination
  by (relation "measure (\<lambda>(a, b). nat (b - a))") auto

definition parseIntNumber :: "rat \<Rightarrow> int option" where
  "parseIntNumber q =
     (let sign = (if q < 0 then - 1 else (1::int)); m = \<bar>q\<bar> in
      if m = 0 then Some 0
      else if 1 / 10 ^ 6 \<le> m \<and> m < 10 ^ 21 then Some (sign * \<lfloor>m\<rfloor>)
      else if 10 ^ 21 \<le> m then Some (sign * leadInt \<lfloor>m\<rfloor>)
      else (case quotient_of m of (a, b) \<Rightarrow> Some (sign * leadFrac a b)))"

definition parseInt :: "jsval \<Rightarrow> int option" where
  "parseInt v =
     (case v of
        JStr s \<Rightarrow> parseIntString s
      | JNum q \<Rightarrow> parseIntNumber q
      | JBool b \<Rightarrow> parseIntString (if b then ''true'' else ''false'')
      | JNull \<Rightarrow> parseIntString ''null''
      | JUndefined \<Rightarrow> parseIntString ''undefined'')"

text \<open>
  Strict equality \<open>a === b\<close> of two numbers that are integers or NaN: NaN equals
  nothing, itself included.
\<close>

definition strictEq :: "int option \<Rightarrow> int option \<Rightarrow> bool" where
  "strictEq a b = (case a of None \<Rightarrow> False | Some x \<Rightarrow> (case b of None \<Rightarrow> False | Some y \<Rightarrow> x = y))"

subsection \<open>Dates\<close>

text \<open>
  A Date holds a time value: milliseconds since the epoch, or NaN (an invalid date),
  again \<open>int option\<close>. \<open>new Date(n)\<close> of a number clips it to the range of time
  values, \<open>8.64 * 10 ^ 15\<close> ms on either side of the epoch; outside it the date is
  invalid. The relational operators on dates compare the time values and are false
  as soon as one side is NaN; the difference of two dates is NaN as soon as one is.
\<close>

definition timeClip :: "int \<Rightarrow> int option" where
  "timeClip t = (if \<bar>t\<bar> \<le> 8640000000000000 then Some t else None)"

definition dateOfSeconds :: "int option \<Rightarrow> int option" where
  "dateOfSeconds n = (case n of None \<Rightarrow> None | Some t \<Rightarrow> timeClip (t * 1000))"

definition dateGe :: "int option \<Rightarrow> int option \<Rightarrow> bool" where
  "dateGe a b = (case a of None \<Rightarrow> False | Some x \<Rightarrow> (case b of None \<Rightarrow> False | Some y \<Rightarrow> y \<le> x))"

definition dateLe :: "int option \<Rightarrow> int option \<Rightarrow> bool" where
  "dateLe a b = (case a of None \<Rightarrow> False | Some x \<Rightarrow> (case b of None \<Rightarrow> False | Some y \<Rightarrow> x \<le> y))"

definition dateDiff :: "int option \<Rightarrow> int option \<Rightarrow> int option" where
  "dateDiff a b = (case a of None \<Rightarrow> None | Some x \<Rightarrow> (case b of None \<Rightarrow> None | Some y \<Rightarrow> Some (x - y)))"

text \<open>
  \<open>new Date(s)\<close> of a string is fixed by the language only for the date-time format
  that \<open>toISOString\<close> writes; what other strings mean is left to the engine. The store
  operations below therefore take the parser as a parameter \<open>parse\<close>, and every theorem
  holds for every parser. \<open>isoParse\<close> reads exactly the strings that \<open>toISOString\<close>
  writes for the years 0000 to 9999 (\<open>YYYY-MM-DDTHH:mm:ss.sssZ\<close> with fields in
  range), on which all engines agree, and nothing else; it instantiates \<open>parse\<close> where
  a concrete run is evaluated.
\<close>

definition decimalField :: "string \<Rightarrow> int option" where
  "decimalField ds =
     (if ds \<noteq> [] \<and> list_all (radixDigit 10) ds then Some (digitsValue 10 ds) else None)"

definition isLeapYear :: "int \<Rightarrow> bool" where
  "isLeapYear y = (y mod 4 = 0 \<and> (y mod 400 = 0 \<or> y mod 100 \<noteq> 0))"

definition daysInMonth :: "int \<Rightarrow> int \<Rightarrow> int" where
  "daysInMonth y m =
     (if m = 2 then (if isLeapYear y then 29 else 28)
      else if m = 4 \<or> m = 6 \<or> m = 9 \<or> m = 11 then 30 else 31)"

text \<open>Days from 1970-01-01 to the given day of the proleptic Gregorian calendar.\<close>

definition daysFromCivil :: "int \<Rightarrow> int \<Rightarrow> int \<Rightarrow> int" where
  "daysFromCivil y m d =
     (let y' = (if m \<le> 2 then y - 1 else y);
          era = y' div 400;
          yoe = y' - era * 400;
          mp = (if 2 < m then m - 3 else m + 9);
          doy = (153 * mp + 2) div 5 + d - 1;
          doe = yoe * 365 + yoe div 4 - yoe div 100 + doy
      in era * 146097 + doe - 719468)"

definition slice :: "nat \<Rightarrow> nat \<Rightarrow> string \<Rightarrow> string" where
  "slice i n s = take n (drop i s)"

definition validFields :: "int \<Rightarrow> int \<Rightarrow> int \<Rightarrow> int \<Rightarrow> int \<Rightarrow> int \<Rightarrow> bool" where
  "validFields y mo d h mi se =
     (1 \<le> mo \<and> mo \<le> 12 \<and> 1 \<le> d \<and> d \<le> daysInMonth y mo \<and> h \<le> 23 \<and> mi \<le> 59 \<and> se \<le> 59)"

definition makeTime :: "int \<Rightarrow> int \<Rightarrow> int \<Rightarrow> int \<Rightarrow> int \<Rightarrow> int \<Rightarrow> int \<Rightarrow> int" where
  "makeTime y mo d h mi se ms =
     (((daysFromCivil y mo d * 24 + h) * 60 + mi) * 60 + se) * 1000 + ms"

definition isoShape :: "string \<Rightarrow> bool" where
  "isoShape s =
     (length s = 24 \<and> slice 4 1 s = ''-'' \<and> slice 7 1 s = ''-'' \<and> slice 10 1 s = ''T''
      \<and> slice 13 1 s = '':'' \<and> slice 16 1 s = '':'' \<and> slice 19 1 s = ''.''
      \<and> slice 23 1 s = ''Z'')"

definition isoParse :: "string \<Rightarrow> int option" where
  "isoParse s =
     (if isoShape s then
        Option.bind (decimalField (slice 0 4 s)) (\<lambda>y.
        Option.bind (decimalField (slice 5 2 s)) (\<lambda>mo.
        Option.bind (decimalField (slice 8 2 s)) (\<lambda>d.
        Option.bind (decimalField (slice 11 2 s)) (\<lambda>h.
        Option.bind (decimalField (slice 14 2 s)) (\<lambda>mi.
        Option.bind (decimalField (slice 17 2 s)) (\<lambda>se.
        Option.bind (decimalField (slice 20 3 s)) (\<lambda>ms.
          if validFields y mo d h mi se then Some (makeTime y mo d h mi se ms) else None)))))))
      else None)"

subsection \<open>Array.prototype.sort\<close>

text \<open>
  \<open>xs.sort(cmp)\<close> is a stable sort; a comparator result that is NaN counts as zero.
  For a comparator that orders the elements consistently every stable sort returns the
  same list, which is the one computed here by insertion. (With invalid dates among the
  elements the comparator is not consistent and the language leaves the order to the
  engine; the theorems on sorted results are stated for valid dates.)
\<close>

definition positive :: "int option \<Rightarrow> bool" where
  "positive v = (case v of None \<Rightarrow> False | Some n \<Rightarrow> 0 < n)"

fun insertBy :: "('a \<Rightarrow> 'a \<Rightarrow> int option) \<Rightarrow> 'a \<Rightarrow> 'a list \<Rightarrow> 'a list" where
  "insertBy cmp x [] = [x]"
| "insertBy cmp x (y # ys) = (if positive (cmp x y) then y # insertBy cmp x ys else x # y # ys)"

definition sortBy :: "('a \<Rightarrow> 'a \<Rightarrow> int option) \<Rightarrow> 'a list \<Rightarrow> 'a list" where
  "sortBy cmp xs = foldr (insertBy cmp) xs []"

section \<open>The store (database.js)\<close>

text \<open>
  The two record types of the data file. The field \<open>id\<close> of a rider is \<open>id_r\<close> and that
  of a location is \<open>id_l\<close>; both are numbers that hold integers, modelled as \<open>int\<close>
  (the double is exact up to \<open>2 ^ 53\<close>). \<open>rider_id\<close> is what \<open>parseInt(riderId)\<close>
  returned, so it can be NaN. The coordinates and the optional readings are stored as
  they arrive; the timestamp is the string the caller passes, which in the server is
  always the output of \<open>toISOString\<close>.
\<close>

record rider =
  id_r :: int
  name :: string
  phone :: string
  email :: string
  status :: string
  created_at :: string
  updated_at :: string

record location =
  id_l :: int
  rider_id :: "int option"
  latitude :: jsval
  longitude :: jsval
  accuracy :: jsval
  speed :: jsval
  heading :: jsval
  timestamp :: string

record database =
  riders :: "rider list"
  locations :: "location list"

text \<open>
  The state of the module: the object \<open>db\<close> in memory, the content of the data file
  (\<open>None\<close> while it does not exist), and whether writing the file succeeds.
  \<open>saveDatabase\<close> catches a failed write and only logs it.
\<close>

record store =
  db :: database
  disk :: "database option"
  writable :: bool

definition saveDatabase :: "store \<Rightarrow> store" where
  "saveDatabase s = (if writable s then s\<lparr>disk := Some (db s)\<rparr> else s)"

text \<open>
  Start-up with no data file: the three sample riders, created at the instant \<open>t\<close>
  (the value of \<open>new Date().toISOString()\<close>), are written to the file. (With a data
  file present the module starts from its content, which can be any database; the
  theorems about the store operations are stated for every store.)
\<close>

definition sampleRiders :: "string \<Rightarrow> rider list" where
  "sampleRiders t =
     [\<lparr>id_r = 1, name = ''John Doe'', phone = ''9876543210'', email = ''john@example.com'',
       status = ''active'', created_at = t, updated_at = t\<rparr>,
      \<lparr>id_r = 2, name = ''Jagdish Suthar'', phone = ''7023204168'', email = ''jks@gmail.com'',
       status = ''active'', created_at = t, updated_at = t\<rparr>,
      \<lparr>id_r = 3, name = ''Mike Johnson'', phone = ''9876543212'', email = ''mike@example.com'',
       status = ''inactive'', created_at = t, updated_at = t\<rparr>]"

definition freshStore :: "bool \<Rightarrow> string \<Rightarrow> store" where
  "freshStore w t =
     saveDatabase \<lparr>db = \<lparr>riders = sampleRiders t, locations = []\<rparr>, disk = None, writable = w\<rparr>"

subsection \<open>Rider operations\<close>

definition getAllRiders :: "store \<Rightarrow> rider list" where
  "getAllRiders s = riders (db s)"

definition getRiderById :: "store \<Rightarrow> jsval \<Rightarrow> rider option" where
  "getRiderById s ident = find (\<lambda>r. strictEq (Some (id_r r)) (parseInt ident)) (riders (db s))"

definition getRiderByPhone :: "store \<Rightarrow> jsval \<Rightarrow> rider option" where
  "getRiderByPhone s p = find (\<lambda>r. JStr (phone r) = p) (riders (db s))"

text \<open>\<open>find\<close> returns the first match, and the assignment changes that element.\<close>

fun updateFirst :: "('a \<Rightarrow> bool) \<Rightarrow> ('a \<Rightarrow> 'a) \<Rightarrow> 'a list \<Rightarrow> 'a list" where
  "updateFirst P f [] = []"
| "updateFirst P f (x # xs) = (if P x then f x # xs else x # updateFirst P f xs)"

definition updateRiderStatus :: "string \<Rightarrow> store \<Rightarrow> string \<Rightarrow> jsval \<Rightarrow> store" where
  "updateRiderStatus now s st ident =
     (case getRiderById s ident of
        None \<Rightarrow> s
      | Some _ \<Rightarrow>
          saveDatabase
            (s\<lparr>db := (db s)\<lparr>riders :=
                 updateFirst (\<lambda>r. strictEq (Some (id_r r)) (parseInt ident))
                   (\<lambda>r. r\<lparr>status := st, updated_at := now\<rparr>) (riders (db s))\<rparr>\<rparr>))"

subsection \<open>Location operations\<close>

text \<open>\<open>Math.max(...ids)\<close> of a list that is not empty.\<close>

definition maxId :: "location \<Rightarrow> location list \<Rightarrow> int" where
  "maxId l ls = fold max (map id_l ls) (id_l l)"

definition nextId :: "location list \<Rightarrow> int" where
  "nextId ls = (case ls of [] \<Rightarrow> 1 | l # rest \<Rightarrow> maxId l rest + 1)"

definition insertLocation ::
  "store \<Rightarrow> jsval \<Rightarrow> jsval \<Rightarrow> jsval \<Rightarrow> jsval \<Rightarrow> jsval \<Rightarrow> jsval \<Rightarrow> string \<Rightarrow> int \<times> store" where
  "insertLocation s riderId lat lon acc spd hdg ts =
     (let i = nextId (locations (db s));
          l = \<lparr>id_l = i, rider_id = parseInt riderId, latitude = lat, longitude = lon,
               accuracy = acc, speed = spd, heading = hdg, timestamp = ts\<rparr>
      in (i, saveDatabase (s\<lparr>db := (db s)\<lparr>locations := locations (db s) @ [l]\<rparr>\<rparr>)))"

definition instant :: "(string \<Rightarrow> int option) \<Rightarrow> location \<Rightarrow> int option" where
  "instant parse l = parse (timestamp l)"

definition newestFirst :: "(string \<Rightarrow> int option) \<Rightarrow> location \<Rightarrow> location \<Rightarrow> int option" where
  "newestFirst parse a b = dateDiff (instant parse b) (instant parse a)"

definition oldestFirst :: "(string \<Rightarrow> int option) \<Rightarrow> location \<Rightarrow> location \<Rightarrow> int option" where
  "oldestFirst parse a b = dateDiff (instant parse a) (instant parse b)"

definition getLatestLocation :: "(string \<Rightarrow> int option) \<Rightarrow> store \<Rightarrow> jsval \<Rightarrow> location option" where
  "getLatestLocation parse s riderId =
     (case sortBy (newestFirst parse)
             (filter (\<lambda>l. strictEq (rider_id l) (parseInt riderId)) (locations (db s))) of
        [] \<Rightarrow> None
      | l # _ \<Rightarrow> Some l)"

definition getLocationHistory ::
  "(string \<Rightarrow> int option) \<Rightarrow> store \<Rightarrow> jsval \<Rightarrow> int option \<Rightarrow> int option \<Rightarrow> location list" where
  "getLocationHistory parse s riderId startTime endTime =
     (let startDate = dateOfSeconds startTime;
          endDate = dateOfSeconds endTime
      in sortBy (oldestFirst parse)
           (filter (\<lambda>l. strictEq (rider_id l) (parseInt riderId)
                         \<and> dateGe (instant parse l) startDate
                         \<and> dateLe (instant parse l) endDate)
              (locations (db s))))"

text \<open>
  An entry of \<open>getAllLatestLocations\<close>: the fields of the location (\<open>sample\<close>) and the
  rider's \<open>name\<close>, \<open>phone\<close> and \<open>status\<close> beside them.
\<close>

record latest =
  sample :: location
  name_of :: string
  phone_of :: string
  status_of :: string

definition latestOf :: "(string \<Rightarrow> int option) \<Rightarrow> location list \<Rightarrow> rider \<Rightarrow> latest list" where
  "latestOf parse ls r =
     (case sortBy (newestFirst parse) (filter (\<lambda>l. strictEq (rider_id l) (Some (id_r r))) ls) of
        [] \<Rightarrow> []
      | l # _ \<Rightarrow> [\<lparr>sample = l, name_of = name r, phone_of = phone r, status_of = status r\<rparr>])"

definition getAllLatestLocations :: "(string \<Rightarrow> int option) \<Rightarrow> store \<Rightarrow> latest list" where
  "getAllLatestLocations parse s =
     concat (map (latestOf parse (locations (db s)))
               (filter (\<lambda>r. status r = ''active'') (riders (db s))))"

text \<open>
  \<open>deleteOldLocations\<close> reads the clock (\<open>now\<close>, in ms) and moves the date back thirty
  days with \<open>setDate\<close>, which works on local time: the cutoff is thirty times 24 hours
  before \<open>now\<close>, shifted by \<open>dst\<close>, the change of the local offset between the two
  instants (zero in a zone with a fixed offset).
\<close>

definition thirtyDaysAgo :: "int \<Rightarrow> int \<Rightarrow> int" where
  "thirtyDaysAgo dst now = now - 30 * 86400000 + dst"

definition deleteOldLocations :: "(string \<Rightarrow> int option) \<Rightarrow> int \<Rightarrow> int \<Rightarrow> store \<Rightarrow> nat \<times> store" where
  "deleteOldLocations parse dst now s =
     (let cutoff = thirtyDaysAgo dst now;
          initialCount = length (locations (db s));
          s1 = s\<lparr>db := (db s)\<lparr>locations :=
                  filter (\<lambda>l. dateGe (instant parse l) (Some cutoff)) (locations (db s))\<rparr>\<rparr>;
          deletedCount = initialCount - length (locations (db s1))
      in (deletedCount, if 0 < deletedCount then saveDatabase s1 else s1))"

section \<open>The server (HTTP endpoints and socket events)\<close>

text \<open>
  The server keeps the store, the map \<open>activeRiders\<close> and the socket server \<open>io\<close>. A
  JavaScript Map keeps its keys in insertion order, \<open>set\<close> on a key that is present
  replaces the value in place, and keys are compared without conversion (the number 2
  and the string "2" are two keys): an association list with \<open>AList.update\<close> and
  \<open>AList.delete\<close>. Of \<open>io\<close> the model keeps the list of events emitted to all clients,
  oldest first, each with the object sent, as the list of its keys and values.
\<close>

record presence =
  socketId :: string
  name_p :: jsval
  connectedAt :: string

type_synonym event = "string \<times> (string \<times> jsval) list"

record server =
  store_of :: store
  activeRiders :: "(jsval \<times> presence) list"
  emitted :: "event list"

definition emit :: "string \<Rightarrow> (string \<times> jsval) list \<Rightarrow> server \<Rightarrow> server" where
  "emit ev obj sv = sv\<lparr>emitted := emitted sv @ [(ev, obj)]\<rparr>"

definition startServer :: "bool \<Rightarrow> string \<Rightarrow> server" where
  "startServer w t = \<lparr>store_of = freshStore w t, activeRiders = [], emitted = []\<rparr>"

subsection \<open>POST /api/locations\<close>

text \<open>
  The response: the status code and either \<open>{success: true, data: {id}}\<close> or
  \<open>{success: false, error}\<close>. \<open>now\<close> is the value of \<open>new Date().toISOString()\<close>.
  The body is the parsed JSON object. The handler answers 500 when a call in its
  \<open>try\<close> block throws; none of the calls modelled here throws (a failed write of the
  data file is caught inside \<open>saveDatabase\<close>), so that branch has no counterpart.
\<close>

datatype reply = Data int | Failure string

record response =
  statusCode :: nat
  json :: reply

definition postLocations :: "string \<Rightarrow> jsobject \<Rightarrow> server \<Rightarrow> response \<times> server" where
  "postLocations now body sv =
     (let riderId = field body ''riderId'';
          lat = field body ''latitude'';
          lon = field body ''longitude'';
          acc = field body ''accuracy'';
          spd = field body ''speed'';
          hdg = field body ''heading''
      in if js_not riderId \<or> js_not lat \<or> js_not lon
         then (\<lparr>statusCode = 400,
                json = Failure ''riderId, latitude, and longitude are required''\<rparr>, sv)
         else
           (let (i, s') = insertLocation (store_of sv) riderId lat lon
                            (orNull acc) (orNull spd) (orNull hdg) now;
                sv' = emit ''location-update''
                        [(''riderId'', riderId), (''latitude'', lat), (''longitude'', lon),
                         (''accuracy'', acc), (''speed'', spd), (''heading'', hdg),
                         (''timestamp'', JStr now)]
                        (sv\<lparr>store_of := s'\<rparr>)
            in (\<lparr>statusCode = 200, json = Data i\<rparr>, sv')))"

subsection \<open>Socket events\<close>

text \<open>
  Each handler takes the instant \<open>now\<close> (the handler's clock readings, as ISO strings)
  and the payload object; \<open>sock\<close> is \<open>socket.id\<close>.
\<close>

definition riderConnect :: "string \<Rightarrow> string \<Rightarrow> jsobject \<Rightarrow> server \<Rightarrow> server" where
  "riderConnect sock now d sv =
     (let riderId = field d ''riderId'';
          riderName = field d ''riderName'';
          sv1 = sv\<lparr>activeRiders :=
                  AList.update riderId
                    \<lparr>socketId = sock, name_p = riderName, connectedAt = now\<rparr> (activeRiders sv)\<rparr>;
          sv2 = sv1\<lparr>store_of := updateRiderStatus now (store_of sv1) ''active'' riderId\<rparr>
      in emit ''rider-status''
           [(''riderId'', riderId), (''riderName'', riderName), (''status'', JStr ''active''),
            (''timestamp'', JStr now)] sv2)"

text \<open>\<open>rider?.name\<close>: undefined when no rider was found.\<close>

definition nameOf :: "rider option \<Rightarrow> jsval" where
  "nameOf r = (case r of None \<Rightarrow> JUndefined | Some x \<Rightarrow> JStr (name x))"

definition locationUpdate :: "string \<Rightarrow> jsobject \<Rightarrow> server \<Rightarrow> server" where
  "locationUpdate now d sv =
     (let riderId = field d ''riderId'';
          lat = field d ''latitude'';
          lon = field d ''longitude'';
          acc = field d ''accuracy'';
          spd = field d ''speed'';
          hdg = field d ''heading'';
          (i, s') = insertLocation (store_of sv) riderId lat lon
                      (orNull acc) (orNull spd) (orNull hdg) now;
          r = getRiderById s' riderId
      in emit ''location-update''
           [(''riderId'', riderId), (''riderName'', nameOf r), (''latitude'', lat),
            (''longitude'', lon), (''accuracy'', acc), (''speed'', spd), (''heading'', hdg),
            (''timestamp'', JStr now)]
           (sv\<lparr>store_of := s'\<rparr>))"

text \<open>What both disconnect paths do once the entry \<open>(riderId, p)\<close> is found.\<close>

definition dropRider :: "string \<Rightarrow> jsval \<Rightarrow> presence \<Rightarrow> server \<Rightarrow> server" where
  "dropRider now riderId p sv =
     (let sv1 = sv\<lparr>activeRiders := AList.delete riderId (activeRiders sv)\<rparr>;
          sv2 = sv1\<lparr>store_of := updateRiderStatus now (store_of sv1) ''inactive'' riderId\<rparr>
      in emit ''rider-status''
           [(''riderId'', riderId), (''riderName'', name_p p), (''status'', JStr ''inactive''),
            (''timestamp'', JStr now)] sv2)"

definition riderDisconnect :: "string \<Rightarrow> jsobject \<Rightarrow> server \<Rightarrow> server" where
  "riderDisconnect now d sv =
     (let riderId = field d ''riderId'' in
      case map_of (activeRiders sv) riderId of
        None \<Rightarrow> sv
      | Some p \<Rightarrow> dropRider now riderId p sv)"

text \<open>The socket closed: the first entry of the map with this socket id, if any.\<close>

definition disconnect :: "string \<Rightarrow> string \<Rightarrow> server \<Rightarrow> server" where
  "disconnect sock now sv =
     (case find (\<lambda>e. socketId (snd e) = sock) (activeRiders sv) of
        None \<Rightarrow> sv
      | Some e \<Rightarrow> dropRider now (fst e) (snd e) sv)"

text \<open>The retention job, once a day.\<close>

definition cleanup :: "(string \<Rightarrow> int option) \<Rightarrow> int \<Rightarrow> int \<Rightarrow> server \<Rightarrow> server" where
  "cleanup parse dst now sv =
     sv\<lparr>store_of := snd (deleteOldLocations parse dst now (store_of sv))\<rparr>"

section \<open>Runs and the predicates of the specification\<close>

subsection \<open>Sequences of store operations\<close>

text \<open>
  A sequence of calls of \<open>insertLocation\<close> and \<open>deleteOldLocations\<close> (the latter with
  the clock reading of the call), and the ids the inserts return, in order.
\<close>

datatype storeOp =
    InsertLocation jsval jsval jsval jsval jsval jsval string
  | DeleteOldLocations int

fun assignedIds :: "(string \<Rightarrow> int option) \<Rightarrow> int \<Rightarrow> store \<Rightarrow> storeOp list \<Rightarrow> int list" where
  "assignedIds parse dst s [] = []"
| "assignedIds parse dst s (InsertLocation r la lo a sp h ts # ops) =
     fst (insertLocation s r la lo a sp h ts)
       # assignedIds parse dst (snd (insertLocation s r la lo a sp h ts)) ops"
| "assignedIds parse dst s (DeleteOldLocations now # ops) =
     assignedIds parse dst (snd (deleteOldLocations parse dst now s)) ops"

text \<open>
  \<open>topKept\<close>: no deletion of the run changes the id the next insert would get. This
  is the case whenever a sample that holds the highest id is kept.
\<close>

fun topKept :: "(string \<Rightarrow> int option) \<Rightarrow> int \<Rightarrow> store \<Rightarrow> storeOp list \<Rightarrow> bool" where
  "topKept parse dst s [] = True"
| "topKept parse dst s (InsertLocation r la lo a sp h ts # ops) =
     topKept parse dst (snd (insertLocation s r la lo a sp h ts)) ops"
| "topKept parse dst s (DeleteOldLocations now # ops) =
     (nextId (locations (db (snd (deleteOldLocations parse dst now s)))) = nextId (locations (db s))
      \<and> topKept parse dst (snd (deleteOldLocations parse dst now s)) ops)"

subsection \<open>Reading the timestamps\<close>

text \<open>
  The data model has every timestamp an ISO-8601 string: \<open>parses\<close> holds of a list of
  samples when the parser reads each timestamp as a date. \<open>olderThan\<close> is the
  specification's "older than the cutoff", and \<open>inWindow\<close> its "rider id matches and
  \<open>t0 \<le> timestamp \<le> t1\<close>", with the bounds in seconds and the timestamp by its
  parsed value in milliseconds.
\<close>

definition parses :: "(string \<Rightarrow> int option) \<Rightarrow> location list \<Rightarrow> bool" where
  "parses parse ls = list_all (\<lambda>l. instant parse l \<noteq> None) ls"

definition olderThan :: "(string \<Rightarrow> int option) \<Rightarrow> int \<Rightarrow> location \<Rightarrow> bool" where
  "olderThan parse cutoff l = (case instant parse l of None \<Rightarrow> False | Some t \<Rightarrow> t < cutoff)"

definition inWindow :: "(string \<Rightarrow> int option) \<Rightarrow> jsval \<Rightarrow> int \<Rightarrow> int \<Rightarrow> location \<Rightarrow> bool" where
  "inWindow parse riderId t0 t1 l =
     (strictEq (rider_id l) (parseInt riderId)
      \<and> (case instant parse l of None \<Rightarrow> False | Some t \<Rightarrow> t0 * 1000 \<le> t \<and> t \<le> t1 * 1000))"

definition notAfter :: "(string \<Rightarrow> int option) \<Rightarrow> location \<Rightarrow> location \<Rightarrow> bool" where
  "notAfter parse a b = dateLe (instant parse a) (instant parse b)"

subsection \<open>Sequences of socket events\<close>

datatype socketEvent =
    RiderConnect string string jsobject
  | RiderDisconnect string jsobject
  | Disconnect string string

fun step :: "server \<Rightarrow> socketEvent \<Rightarrow> server" where
  "step sv (RiderConnect sock now d) = riderConnect sock now d sv"
| "step sv (RiderDisconnect now d) = riderDisconnect now d sv"
| "step sv (Disconnect sock now) = disconnect sock now sv"

definition run :: "server \<Rightarrow> socketEvent list \<Rightarrow> server" where
  "run sv evs = foldl step sv evs"





definition hasEntry :: "server \<Rightarrow> int \<Rightarrow> bool" where
  "hasEntry sv k = (map_of (activeRiders sv) (JNum (of_int k)) \<noteq> None)"



subsection \<open>Reading a rider id from a string\<close>

text \<open>
  \<open>decimalPrefix s\<close> is the longest prefix of decimal digits of \<open>s\<close>;
  \<open>hexPrefixed s\<close> holds when \<open>s\<close> starts with \<open>0x\<close> or \<open>0X\<close>; \<open>unsigned s\<close> is \<open>s\<close>
  without its leading white space and one sign.
\<close>

definition decimalPrefix :: "string \<Rightarrow> string" where
  "decimalPrefix s = takeWhile (radixDigit 10) s"

definition hexPrefixed :: "string \<Rightarrow> bool" where
  "hexPrefixed s = (fst (stripPrefix s) = 16)"

definition unsigned :: "string \<Rightarrow> string" where
  "unsigned s = snd (stripSign (skipWhiteSpace s))"

subsection \<open>Auxiliary readings\<close>

text \<open>
  \<open>millis\<close> is the parsed time of a sample as a number (zero where it does not
  parse). \<open>entryKey\<close> reads from an entry of \<open>getAllLatestLocations\<close> the rider id of
  its sample and the three fields added from the rider; \<open>riderKey\<close> reads the same
  four values from a rider. \<open>hasSample s r\<close> holds when some sample of the store has
  the id of \<open>r\<close> as its rider id.
\<close>

definition millis :: "(string \<Rightarrow> int option) \<Rightarrow> location \<Rightarrow> int" where
  "millis parse l = (case instant parse l of None \<Rightarrow> 0 | Some t \<Rightarrow> t)"

definition entryKey :: "latest \<Rightarrow> int option \<times> string \<times> string \<times> string" where
  "entryKey e = (rider_id (sample e), name_of e, phone_of e, status_of e)"

definition riderKey :: "rider \<Rightarrow> int option \<times> string \<times> string \<times> string" where
  "riderKey r = (Some (id_r r), name r, phone r, status r)"

definition hasSample :: "store \<Rightarrow> rider \<Rightarrow> bool" where
  "hasSample s r = list_ex (\<lambda>l. rider_id l = Some (id_r r)) (locations (db s))"

subsection \<open>A small store for concrete runs\<close>

text \<open>
  The freshly seeded store, and the same after four inserts: samples 1 and 3 of rider 2
  (3 January and 1 January 2024), sample 2 of rider 1 (2 January) and sample 4 of the
  inactive rider 3 (4 January).
\<close>

definition seeded :: store where
  "seeded = freshStore True ''2024-01-01T00:00:00.000Z''"

definition fourSamples :: store where
  "fourSamples =
     snd (insertLocation
       (snd (insertLocation
         (snd (insertLocation
           (snd (insertLocation seeded
              (JNum 2) (JNum (269 / 10)) (JNum (379 / 5)) JNull JNull JNull
              ''2024-01-03T00:00:00.000Z''))
           (JNum 1) (JNum (127 / 10)) (JNum (776 / 10)) JNull JNull JNull
           ''2024-01-02T00:00:00.000Z''))
         (JNum 2) (JNum (268 / 10)) (JNum (378 / 5)) JNull JNull JNull
         ''2024-01-01T00:00:00.000Z''))
       (JNum 3) (JNum (190 / 10)) (JNum (728 / 10)) JNull JNull JNull
       ''2024-01-04T00:00:00.000Z'')"

section \<open>Properties\<close>

subsection \<open>Validation of POST /api/locations\<close>

lemma js_not_field:
  "body k = Some v \<Longrightarrow> \<not> truthy v \<Longrightarrow> js_not (field body k)"
  by (simp add: js_not_def field_def)

text \<open>
  Claim C9. A request whose body holds \<open>riderId\<close>, \<open>latitude\<close> and \<open>longitude\<close> but
  with a falsy value (0, the empty string, null, false) in one of them is answered with
  HTTP 400; the server state is returned as it was, so no sample is inserted and no
  event is emitted. Latitude 0 and longitude 0 are such values.
\<close>

theorem postLocations_rejects_falsy:
  assumes "k = ''riderId'' \<or> k = ''latitude'' \<or> k = ''longitude''"
    and "body k = Some v"
    and "\<not> truthy v"
  shows "postLocations now body sv =
           (\<lparr>statusCode = 400,
             json = Failure ''riderId, latitude, and longitude are required''\<rparr>, sv)"
proof -
  have "js_not (field body k)"
    using assms(2,3) by (rule js_not_field)
  with assms(1) have "js_not (field body ''riderId'') \<or> js_not (field body ''latitude'')
      \<or> js_not (field body ''longitude'')"
    by auto
  then show ?thesis
    by (simp add: postLocations_def Let_def)
qed

theorem postLocations_rejects_falsy_witness:
  "[''riderId'' \<mapsto> JNum 2, ''latitude'' \<mapsto> JNum (269 / 10), ''longitude'' \<mapsto> JNum 0] ''longitude''
     = Some (JNum 0)
   \<and> \<not> truthy (JNum 0)
   \<and> postLocations ''2024-01-02T00:00:00.000Z''
        [''riderId'' \<mapsto> JNum 2, ''latitude'' \<mapsto> JNum (269 / 10), ''longitude'' \<mapsto> JNum 0]
        (startServer True ''2024-01-01T00:00:00.000Z'')
      = (\<lparr>statusCode = 400,
          json = Failure ''riderId, latitude, and longitude are required''\<rparr>,
         startServer True ''2024-01-01T00:00:00.000Z'')"
proof -
  let ?b = "[''riderId'' \<mapsto> JNum 2, ''latitude'' \<mapsto> JNum (269 / 10), ''longitude'' \<mapsto> JNum 0]"
  have k: "''longitude'' = ''riderId'' \<or> ''longitude'' = ''latitude'' \<or> ''longitude'' = ''longitude''"
    by simp
  have b: "?b ''longitude'' = Some (JNum 0)"
    by simp
  have f: "\<not> truthy (JNum 0)"
    by (simp add: truthy_def)
  show ?thesis
    using postLocations_rejects_falsy
      [where k = "''longitude''" and body = ?b and v = "JNum 0", OF k b f] b f
    by blast
qed

text \<open>
  Claim C2. The claim has HTTP 400 exactly when a required field is missing. At the
  body \<open>{riderId: 2, latitude: 0, longitude: 75.8}\<close> all three fields are present, and
  the endpoint still answers 400 and leaves the state as it was.
\<close>

theorem postLocations_equator_rejected:
  "[''riderId'' \<mapsto> JNum 2, ''latitude'' \<mapsto> JNum 0, ''longitude'' \<mapsto> JNum (379 / 5)] ''latitude''
     = Some (JNum 0)
   \<and> postLocations ''2024-01-02T00:00:00.000Z''
        [''riderId'' \<mapsto> JNum 2, ''latitude'' \<mapsto> JNum 0, ''longitude'' \<mapsto> JNum (379 / 5)]
        (startServer True ''2024-01-01T00:00:00.000Z'')
      = (\<lparr>statusCode = 400,
          json = Failure ''riderId, latitude, and longitude are required''\<rparr>,
         startServer True ''2024-01-01T00:00:00.000Z'')"
  by (simp add: postLocations_def field_def js_not_def truthy_def)

text \<open>
  A request whose three required fields are truthy is answered with HTTP 200 and the id
  of the new sample, which is appended to the store with the optional readings replaced
  by null where they are falsy; one \<open>location-update\<close> event is emitted; the riders and
  the map of active riders are untouched.
\<close>

theorem postLocations_accepts:
  assumes "truthy (field body ''riderId'')" and "truthy (field body ''latitude'')"
    and "truthy (field body ''longitude'')"
  shows "fst (postLocations now body sv)
           = \<lparr>statusCode = 200, json = Data (nextId (locations (db (store_of sv))))\<rparr>
         \<and> emitted (snd (postLocations now body sv))
           = emitted sv @
             [(''location-update'',
               [(''riderId'', field body ''riderId''), (''latitude'', field body ''latitude''),
                (''longitude'', field body ''longitude''), (''accuracy'', field body ''accuracy''),
                (''speed'', field body ''speed''), (''heading'', field body ''heading''),
                (''timestamp'', JStr now)])]
         \<and> locations (db (store_of (snd (postLocations now body sv))))
           = locations (db (store_of sv)) @
             [\<lparr>id_l = nextId (locations (db (store_of sv))),
               rider_id = parseInt (field body ''riderId''),
               latitude = field body ''latitude'', longitude = field body ''longitude'',
               accuracy = orNull (field body ''accuracy''), speed = orNull (field body ''speed''),
               heading = orNull (field body ''heading''), timestamp = now\<rparr>]
         \<and> riders (db (store_of (snd (postLocations now body sv)))) = riders (db (store_of sv))
         \<and> activeRiders (snd (postLocations now body sv)) = activeRiders sv"
  using assms
  by (simp add: postLocations_def js_not_def Let_def insertLocation_def saveDatabase_def emit_def)

theorem postLocations_accepts_witness:
  "truthy (field [''riderId'' \<mapsto> JNum 2, ''latitude'' \<mapsto> JNum (269 / 10), ''longitude'' \<mapsto> JNum (379 / 5)] ''riderId'')
   \<and> truthy (field [''riderId'' \<mapsto> JNum 2, ''latitude'' \<mapsto> JNum (269 / 10), ''longitude'' \<mapsto> JNum (379 / 5)] ''latitude'')
   \<and> truthy (field [''riderId'' \<mapsto> JNum 2, ''latitude'' \<mapsto> JNum (269 / 10), ''longitude'' \<mapsto> JNum (379 / 5)] ''longitude'')
   \<and> fst (postLocations ''2024-01-05T00:00:00.000Z''
        [''riderId'' \<mapsto> JNum 2, ''latitude'' \<mapsto> JNum (269 / 10), ''longitude'' \<mapsto> JNum (379 / 5)]
        \<lparr>store_of = fourSamples, activeRiders = [], emitted = []\<rparr>)
      = \<lparr>statusCode = 200, json = Data 5\<rparr>"
proof -
  let ?b = "[''riderId'' \<mapsto> JNum 2, ''latitude'' \<mapsto> JNum (269 / 10), ''longitude'' \<mapsto> JNum (379 / 5)]"
  have t: "truthy (field ?b ''riderId'')" "truthy (field ?b ''latitude'')" "truthy (field ?b ''longitude'')"
    by (simp_all add: field_def truthy_def)
  have n: "nextId (locations (db fourSamples)) = 5"
    by code_simp
  show ?thesis
    using postLocations_accepts [OF t, of "''2024-01-05T00:00:00.000Z''"
        "\<lparr>store_of = fourSamples, activeRiders = [], emitted = []\<rparr>"] t n
    by simp
qed

subsection \<open>The broadcast of a location update\<close>

lemmas js_defs = field_def js_not_def truthy_def orNull_def parseInt_def parseIntNumber_def
  strictEq_def

lemmas store_defs = startServer_def freshStore_def sampleRiders_def saveDatabase_def
  insertLocation_def nextId_def maxId_def getRiderById_def emit_def nameOf_def

text \<open>
  Claim C6. The claim has \<open>riderName\<close> in the broadcast on both paths. For the update
  \<open>{riderId: 2, latitude: 26.9, longitude: 75.8}\<close> on the freshly seeded store, the
  event sent by POST /api/locations has no key \<open>riderName\<close>, while the socket handler
  sends the same update with \<open>riderName: "Jagdish Suthar"\<close>.
\<close>

theorem postLocations_broadcast_without_riderName:
  "emitted (snd (postLocations ''2024-01-02T00:00:00.000Z''
      [''riderId'' \<mapsto> JNum 2, ''latitude'' \<mapsto> JNum (269 / 10), ''longitude'' \<mapsto> JNum (379 / 5)]
      (startServer True ''2024-01-01T00:00:00.000Z'')))
   = [(''location-update'',
       [(''riderId'', JNum 2), (''latitude'', JNum (269 / 10)), (''longitude'', JNum (379 / 5)),
        (''accuracy'', JUndefined), (''speed'', JUndefined), (''heading'', JUndefined),
        (''timestamp'', JStr ''2024-01-02T00:00:00.000Z'')])]
   \<and> emitted (locationUpdate ''2024-01-02T00:00:00.000Z''
      [''riderId'' \<mapsto> JNum 2, ''latitude'' \<mapsto> JNum (269 / 10), ''longitude'' \<mapsto> JNum (379 / 5)]
      (startServer True ''2024-01-01T00:00:00.000Z''))
   = [(''location-update'',
       [(''riderId'', JNum 2), (''riderName'', JStr ''Jagdish Suthar''),
        (''latitude'', JNum (269 / 10)), (''longitude'', JNum (379 / 5)),
        (''accuracy'', JUndefined), (''speed'', JUndefined), (''heading'', JUndefined),
        (''timestamp'', JStr ''2024-01-02T00:00:00.000Z'')])]"
  by (simp add: postLocations_def locationUpdate_def js_defs store_defs Let_def)

text \<open>
  Claim C8. The claim has a socket update with a missing required field dropped. For
  the update \<open>{riderId: 2, latitude: 26.9}\<close>, which has no longitude, the socket
  handler inserts a sample whose longitude is undefined and emits the broadcast.
\<close>

theorem locationUpdate_missing_longitude:
  "[''riderId'' \<mapsto> JNum 2, ''latitude'' \<mapsto> JNum (269 / 10)] ''longitude'' = None
   \<and> locations (db (store_of (locationUpdate ''2024-01-02T00:00:00.000Z''
        [''riderId'' \<mapsto> JNum 2, ''latitude'' \<mapsto> JNum (269 / 10)]
        (startServer True ''2024-01-01T00:00:00.000Z''))))
     = [\<lparr>id_l = 1, rider_id = Some 2, latitude = JNum (269 / 10), longitude = JUndefined,
         accuracy = JNull, speed = JNull, heading = JNull,
         timestamp = ''2024-01-02T00:00:00.000Z''\<rparr>]
   \<and> emitted (locationUpdate ''2024-01-02T00:00:00.000Z''
        [''riderId'' \<mapsto> JNum 2, ''latitude'' \<mapsto> JNum (269 / 10)]
        (startServer True ''2024-01-01T00:00:00.000Z''))
     = [(''location-update'',
         [(''riderId'', JNum 2), (''riderName'', JStr ''Jagdish Suthar''),
          (''latitude'', JNum (269 / 10)), (''longitude'', JUndefined),
          (''accuracy'', JUndefined), (''speed'', JUndefined), (''heading'', JUndefined),
          (''timestamp'', JStr ''2024-01-02T00:00:00.000Z'')])]"
  by (simp add: locationUpdate_def js_defs store_defs Let_def)

lemma getRiderById_insertLocation:
  "getRiderById (snd (insertLocation s r la lo a sp h ts)) v = getRiderById s v"
  by (simp add: getRiderById_def insertLocation_def Let_def saveDatabase_def)

text \<open>
  On the socket path every update, whatever its fields, emits one \<open>location-update\<close>
  event whose \<open>riderName\<close> is the name of the rider that \<open>getRiderById\<close> finds for the
  rider id, or undefined when it finds none.
\<close>

theorem locationUpdate_broadcast:
  "emitted (locationUpdate now d sv)
     = emitted sv @
       [(''location-update'',
         [(''riderId'', field d ''riderId''),
          (''riderName'', nameOf (getRiderById (store_of sv) (field d ''riderId''))),
          (''latitude'', field d ''latitude''), (''longitude'', field d ''longitude''),
          (''accuracy'', field d ''accuracy''), (''speed'', field d ''speed''),
          (''heading'', field d ''heading''), (''timestamp'', JStr now)])]"
  by (simp add: locationUpdate_def Let_def emit_def split_beta getRiderById_insertLocation)

subsection \<open>The sort\<close>

text \<open>
  \<open>sortBy\<close> permutes its argument, and on samples whose timestamps parse it is the
  stable sort by the parsed time (descending for \<open>newestFirst\<close>, ascending for
  \<open>oldestFirst\<close>).
\<close>

lemma mset_insertBy: "mset (insertBy cmp x ys) = add_mset x (mset ys)"
  by (induction ys) auto

lemma mset_sortBy: "mset (sortBy cmp xs) = mset xs"
  by (induction xs) (auto simp: sortBy_def mset_insertBy)

lemma set_sortBy: "set (sortBy cmp xs) = set xs"
  by (metis mset_sortBy set_mset_mset)

lemma length_sortBy: "length (sortBy cmp xs) = length xs"
  by (metis mset_sortBy size_mset)

lemma sortBy_Nil_iff: "sortBy cmp xs = [] \<longleftrightarrow> xs = []"
  by (metis length_sortBy length_0_conv)

lemma insertBy_insort_key:
  "\<forall>y\<in>set ys. positive (cmp x y) \<longleftrightarrow> f y < f x \<Longrightarrow> insertBy cmp x ys = insort_key f x ys"
  for f :: "'a \<Rightarrow> int"
  by (induction ys) auto

lemma sortBy_sort_key:
  "\<forall>x\<in>set xs. \<forall>y\<in>set xs. positive (cmp x y) \<longleftrightarrow> f y < f x \<Longrightarrow> sortBy cmp xs = sort_key f xs"
  for f :: "'a \<Rightarrow> int"
proof (induction xs)
  case Nil
  show ?case by (simp add: sortBy_def)
next
  case (Cons x xs)
  have ih: "sortBy cmp xs = sort_key f xs"
    using Cons by simp
  have "insertBy cmp x (sort_key f xs) = insort_key f x (sort_key f xs)"
    using Cons.prems by (intro insertBy_insort_key) simp
  with ih show ?case
    by (simp add: sortBy_def)
qed

lemma positive_oldestFirst:
  "instant parse a \<noteq> None \<Longrightarrow> instant parse b \<noteq> None \<Longrightarrow>
   positive (oldestFirst parse a b) \<longleftrightarrow> millis parse b < millis parse a"
  by (auto simp: positive_def oldestFirst_def dateDiff_def millis_def)

lemma positive_newestFirst:
  "instant parse a \<noteq> None \<Longrightarrow> instant parse b \<noteq> None \<Longrightarrow>
   positive (newestFirst parse a b) \<longleftrightarrow> - millis parse b < - millis parse a"
  by (auto simp: positive_def newestFirst_def dateDiff_def millis_def)

lemma sortBy_oldestFirst:
  "parses parse xs \<Longrightarrow> sortBy (oldestFirst parse) xs = sort_key (millis parse) xs"
  by (intro sortBy_sort_key) (simp add: parses_def list_all_iff positive_oldestFirst)

lemma sortBy_newestFirst:
  "parses parse xs \<Longrightarrow> sortBy (newestFirst parse) xs = sort_key (\<lambda>l. - millis parse l) xs"
  by (intro sortBy_sort_key) (simp add: parses_def list_all_iff positive_newestFirst)


subsection \<open>The latest sample of each active rider\<close>

lemma strictEq_Some [simp]: "strictEq a (Some k) \<longleftrightarrow> a = Some k"
  by (cases a) (auto simp: strictEq_def)

lemma notAfter_millis:
  "instant parse a \<noteq> None \<Longrightarrow> instant parse b \<noteq> None \<Longrightarrow>
   notAfter parse a b \<longleftrightarrow> millis parse a \<le> millis parse b"
  by (auto simp: notAfter_def dateLe_def millis_def)

lemma parses_filter: "parses parse xs \<Longrightarrow> parses parse (filter P xs)"
  by (simp add: parses_def list_all_iff)

lemma parsesD: "parses parse xs \<Longrightarrow> x \<in> set xs \<Longrightarrow> instant parse x \<noteq> None"
  by (simp add: parses_def list_all_iff)

lemma head_newestFirst:
  assumes "parses parse xs" and "sortBy (newestFirst parse) xs = l # rest"
  shows "l \<in> set xs \<and> (\<forall>z\<in>set xs. notAfter parse z l)"
proof -
  have eq: "sort_key (\<lambda>l. - millis parse l) xs = l # rest"
    using assms by (simp add: sortBy_newestFirst)
  have mem: "set (l # rest) = set xs"
    using eq by (metis set_sort)
  have "sorted (map (\<lambda>l. - millis parse l) (l # rest))"
    using eq by (metis sorted_sort_key)
  then have "\<forall>z\<in>set (l # rest). millis parse z \<le> millis parse l"
    by auto
  then have le: "\<forall>z\<in>set xs. millis parse z \<le> millis parse l"
    unfolding mem .
  have l: "l \<in> set xs"
    using mem by auto
  show ?thesis
    using l le assms(1) by (auto simp: notAfter_millis parsesD)
qed

lemma concat_map_if:
  "concat (map (\<lambda>r. if Q r then [g r] else []) xs) = map g (filter Q xs)"
  by (induction xs) auto

lemma latestOf_keys:
  "map entryKey (latestOf parse (locations (db s)) r) = (if hasSample s r then [riderKey r] else [])"
proof -
  let ?xs = "filter (\<lambda>l. strictEq (rider_id l) (Some (id_r r))) (locations (db s))"
  show ?thesis
  proof (cases "sortBy (newestFirst parse) ?xs")
    case Nil
    then have "?xs = []"
      by (simp add: sortBy_Nil_iff)
    then have "\<not> hasSample s r"
      by (auto simp: hasSample_def list_ex_iff filter_empty_conv)
    with Nil show ?thesis
      by (simp add: latestOf_def)
  next
    case (Cons l rest)
    then have "l \<in> set ?xs"
      by (metis list.set_intros(1) set_sortBy)
    then have "rider_id l = Some (id_r r)" and "hasSample s r"
      by (auto simp: hasSample_def list_ex_iff)
    with Cons show ?thesis
      by (simp add: latestOf_def entryKey_def riderKey_def)
  qed
qed

lemma latestOf_newest:
  assumes "parses parse ls" and "e \<in> set (latestOf parse ls r)"
  shows "sample e \<in> set ls
         \<and> (\<forall>l\<in>set ls. rider_id l = rider_id (sample e) \<longrightarrow> notAfter parse l (sample e))"
proof -
  let ?xs = "filter (\<lambda>l. strictEq (rider_id l) (Some (id_r r))) ls"
  show ?thesis
  proof (cases "sortBy (newestFirst parse) ?xs")
    case Nil
    with assms(2) show ?thesis
      by (simp add: latestOf_def)
  next
    case (Cons l rest)
    with assms(2) have e: "sample e = l"
      by (simp add: latestOf_def)
    have "l \<in> set ?xs \<and> (\<forall>z\<in>set ?xs. notAfter parse z l)"
      using parses_filter [OF assms(1)] Cons by (rule head_newestFirst)
    then show ?thesis
      using e by auto
  qed
qed

text \<open>
  Claim C4. On a store whose timestamps parse, the entries of
  \<open>getAllLatestLocations\<close> are, in the order of the riders, one entry for each rider
  whose status is \<open>active\<close> and who has at least one sample, carrying that rider's
  id, name, phone and status; so a rider with no sample and a rider that is not active
  have no entry, however many samples the latter has. The sample of every entry is a
  sample of the store, and no sample of the same rider has a later parsed timestamp.
\<close>

theorem getAllLatestLocations_latest:
  assumes "parses parse (locations (db s))"
  shows "map entryKey (getAllLatestLocations parse s)
           = map riderKey (filter (\<lambda>r. status r = ''active'' \<and> hasSample s r) (riders (db s)))
         \<and> (\<forall>e\<in>set (getAllLatestLocations parse s).
               sample e \<in> set (locations (db s))
               \<and> (\<forall>l\<in>set (locations (db s)).
                     rider_id l = rider_id (sample e) \<longrightarrow> notAfter parse l (sample e)))"
proof
  have "map entryKey (getAllLatestLocations parse s)
          = concat (map (\<lambda>r. if hasSample s r then [riderKey r] else [])
                     (filter (\<lambda>r. status r = ''active'') (riders (db s))))"
    by (simp add: getAllLatestLocations_def map_concat comp_def latestOf_keys)
  also have "\<dots> = map riderKey (filter (hasSample s) (filter (\<lambda>r. status r = ''active'') (riders (db s))))"
    by (rule concat_map_if)
  finally show "map entryKey (getAllLatestLocations parse s)
           = map riderKey (filter (\<lambda>r. status r = ''active'' \<and> hasSample s r) (riders (db s)))"
    by (simp add: conj_commute)
next
  show "\<forall>e\<in>set (getAllLatestLocations parse s).
               sample e \<in> set (locations (db s))
               \<and> (\<forall>l\<in>set (locations (db s)).
                     rider_id l = rider_id (sample e) \<longrightarrow> notAfter parse l (sample e))"
    using assms by (auto simp: getAllLatestLocations_def dest: latestOf_newest)
qed


theorem getAllLatestLocations_latest_witness:
  "parses isoParse (locations (db fourSamples))
   \<and> map entryKey (getAllLatestLocations isoParse fourSamples)
       = [(Some 1, ''John Doe'', ''9876543210'', ''active''),
          (Some 2, ''Jagdish Suthar'', ''7023204168'', ''active'')]
   \<and> map id_l (map sample (getAllLatestLocations isoParse fourSamples)) = [2, 1]"
proof -
  have p: "parses isoParse (locations (db fourSamples))"
    by code_simp
  have r: "map riderKey (filter (\<lambda>r. status r = ''active'' \<and> hasSample fourSamples r)
             (riders (db fourSamples)))
           = [(Some 1, ''John Doe'', ''9876543210'', ''active''),
              (Some 2, ''Jagdish Suthar'', ''7023204168'', ''active'')]"
    by code_simp
  have i: "map id_l (map sample (getAllLatestLocations isoParse fourSamples)) = [2, 1]"
    by code_simp
  show ?thesis
    using getAllLatestLocations_latest [OF p] p r i by simp
qed


subsection \<open>The history of a rider in a window\<close>

lemma dateOfSeconds_in_range:
  "\<bar>t\<bar> \<le> 8640000000000 \<Longrightarrow> dateOfSeconds (Some t) = Some (t * 1000)"
  by (simp add: dateOfSeconds_def timeClip_def)

lemma dateOfSeconds_out_of_range:
  "8640000000000 < \<bar>t\<bar> \<Longrightarrow> dateOfSeconds (Some t) = None"
  by (simp add: dateOfSeconds_def timeClip_def)

lemma dateGe_None [simp]: "dateGe a None = False"
  by (simp add: dateGe_def split: option.splits)

lemma dateLe_None [simp]: "dateLe a None = False"
  by (simp add: dateLe_def split: option.splits)

lemma window_filter:
  assumes "\<bar>t0\<bar> \<le> 8640000000000" and "\<bar>t1\<bar> \<le> 8640000000000"
  shows "(strictEq (rider_id l) (parseInt riderId)
           \<and> dateGe (instant parse l) (dateOfSeconds (Some t0))
           \<and> dateLe (instant parse l) (dateOfSeconds (Some t1)))
         \<longleftrightarrow> inWindow parse riderId t0 t1 l"
  using assms
  by (auto simp: dateOfSeconds_in_range inWindow_def dateGe_def dateLe_def split: option.splits)

lemma inWindow_parses: "parses parse (filter (inWindow parse riderId t0 t1) ls)"
  by (auto simp: parses_def list_all_iff inWindow_def split: option.splits)

lemma sorted_notAfter:
  assumes "parses parse xs"
  shows "sorted_wrt (notAfter parse) (sort_key (millis parse) xs)"
proof -
  have "sorted_wrt (\<lambda>a b. millis parse a \<le> millis parse b) (sort_key (millis parse) xs)"
    using sorted_sort_key [of "millis parse" xs] by (simp add: sorted_map)
  then show ?thesis
  proof (rule sorted_wrt_mono_rel [rotated])
    fix a b
    assume "a \<in> set (sort_key (millis parse) xs)" and "b \<in> set (sort_key (millis parse) xs)"
      and "millis parse a \<le> millis parse b"
    then show "notAfter parse a b"
      using assms by (simp add: notAfter_millis parsesD)
  qed
qed

text \<open>
  Claim C5, as amended. For a window \<open>[t0, t1]\<close> in epoch seconds whose bounds are
  dates that JavaScript can represent (at most \<open>8.64 * 10 ^ 12\<close> seconds from the
  epoch), \<open>getLocationHistory\<close> returns exactly the samples whose rider id matches and
  whose parsed timestamp lies in the window, both bounds included, in ascending order of
  the parsed timestamp; it is total, and returns the empty list when nothing matches.
  With a bound beyond that range the result is empty whatever the store holds.
\<close>

theorem getLocationHistory_window:
  "(\<bar>t0\<bar> \<le> 8640000000000 \<and> \<bar>t1\<bar> \<le> 8640000000000 \<longrightarrow>
      mset (getLocationHistory parse s riderId (Some t0) (Some t1))
        = mset (filter (inWindow parse riderId t0 t1) (locations (db s)))
      \<and> sorted_wrt (notAfter parse) (getLocationHistory parse s riderId (Some t0) (Some t1)))
   \<and> (8640000000000 < \<bar>t0\<bar> \<or> 8640000000000 < \<bar>t1\<bar> \<longrightarrow>
        getLocationHistory parse s riderId (Some t0) (Some t1) = [])"
proof (intro conjI impI)
  assume b: "\<bar>t0\<bar> \<le> 8640000000000 \<and> \<bar>t1\<bar> \<le> 8640000000000"
  let ?xs = "filter (inWindow parse riderId t0 t1) (locations (db s))"
  have "getLocationHistory parse s riderId (Some t0) (Some t1) = sortBy (oldestFirst parse) ?xs"
    using b by (simp add: getLocationHistory_def window_filter)
  then have eq: "getLocationHistory parse s riderId (Some t0) (Some t1) = sort_key (millis parse) ?xs"
    by (simp add: sortBy_oldestFirst inWindow_parses)
  show "mset (getLocationHistory parse s riderId (Some t0) (Some t1)) = mset ?xs"
    by (simp add: eq)
  show "sorted_wrt (notAfter parse) (getLocationHistory parse s riderId (Some t0) (Some t1))"
    unfolding eq by (rule sorted_notAfter) (rule inWindow_parses)
next
  assume "8640000000000 < \<bar>t0\<bar> \<or> 8640000000000 < \<bar>t1\<bar>"
  then have "dateOfSeconds (Some t0) = None \<or> dateOfSeconds (Some t1) = None"
    by (auto simp: dateOfSeconds_out_of_range)
  then show "getLocationHistory parse s riderId (Some t0) (Some t1) = []"
    by (auto simp: getLocationHistory_def sortBy_def)
qed

theorem getLocationHistory_window_witness:
  "\<bar>1704067200\<bar> \<le> (8640000000000::int) \<and> \<bar>1704240000\<bar> \<le> (8640000000000::int)
   \<and> mset (getLocationHistory isoParse fourSamples (JStr ''2'') (Some 1704067200) (Some 1704240000))
       = mset (filter (inWindow isoParse (JStr ''2'') 1704067200 1704240000)
                 (locations (db fourSamples)))
   \<and> sorted_wrt (notAfter isoParse)
        (getLocationHistory isoParse fourSamples (JStr ''2'') (Some 1704067200) (Some 1704240000))
   \<and> map id_l (getLocationHistory isoParse fourSamples (JStr ''2'') (Some 1704067200) (Some 1704240000))
       = [3, 1]
   \<and> 8640000000000 < \<bar>10000000000000 :: int\<bar>
   \<and> getLocationHistory isoParse fourSamples (JStr ''2'') (Some 0) (Some 10000000000000) = []"
proof -
  have v: "map id_l (getLocationHistory isoParse fourSamples (JStr ''2'') (Some 1704067200) (Some 1704240000))
       = [3, 1]"
    by code_simp
  show ?thesis
    using getLocationHistory_window [of 1704067200 1704240000 isoParse fourSamples "JStr ''2''"]
      getLocationHistory_window [of 0 10000000000000 isoParse fourSamples "JStr ''2''"] v
    by simp
qed

text \<open>
  Claim C5 as stated fails for the window from 0 to \<open>10 ^ 13\<close> seconds: sample 1 and
  sample 3 of rider 2 lie in it, and the result is empty, because the upper bound is
  not a valid date and every comparison with it is false.
\<close>

theorem getLocationHistory_far_bound_empty:
  "filter (inWindow isoParse (JStr ''2'') 0 10000000000000) (locations (db fourSamples)) \<noteq> []
   \<and> getLocationHistory isoParse fourSamples (JStr ''2'') (Some 0) (Some 10000000000000) = []"
  by code_simp


subsection \<open>Pruning\<close>

lemma kept_iff_not_older:
  "instant parse l \<noteq> None \<Longrightarrow> dateGe (instant parse l) (Some c) \<longleftrightarrow> \<not> olderThan parse c l"
  by (auto simp: dateGe_def olderThan_def)

lemma filter_kept:
  "parses parse ls \<Longrightarrow>
   filter (\<lambda>l. dateGe (instant parse l) (Some c)) ls = filter (\<lambda>l. \<not> olderThan parse c l) ls"
  by (rule filter_cong) (auto simp: kept_iff_not_older parsesD)


lemma deleteOldLocations_result:
  "deleteOldLocations parse dst now s =
     (length (locations (db s))
        - length (filter (\<lambda>l. dateGe (instant parse l) (Some (thirtyDaysAgo dst now))) (locations (db s))),
      (if length (filter (\<lambda>l. dateGe (instant parse l) (Some (thirtyDaysAgo dst now))) (locations (db s)))
            < length (locations (db s))
       then saveDatabase
              (s\<lparr>db := (db s)\<lparr>locations :=
                 filter (\<lambda>l. dateGe (instant parse l) (Some (thirtyDaysAgo dst now))) (locations (db s))\<rparr>\<rparr>)
       else s\<lparr>db := (db s)\<lparr>locations :=
                 filter (\<lambda>l. dateGe (instant parse l) (Some (thirtyDaysAgo dst now))) (locations (db s))\<rparr>\<rparr>))"
  by (simp add: deleteOldLocations_def Let_def)

lemma deleteOldLocations_locations:
  "locations (db (snd (deleteOldLocations parse dst now s)))
     = filter (\<lambda>l. dateGe (instant parse l) (Some (thirtyDaysAgo dst now))) (locations (db s))"
  by (simp add: deleteOldLocations_result saveDatabase_def)


lemma deleteOldLocations_writable:
  "writable (snd (deleteOldLocations parse dst now s)) = writable s"
  by (simp add: deleteOldLocations_result saveDatabase_def)






text \<open>
  Across a change of the zone's offset (a daylight-saving transition between the two
  instants) \<open>setDate\<close> keeps the local wall-clock time, and the cutoff moves by that
  change \<open>dst\<close>.
\<close>

theorem deleteOldLocations_shifted:
  assumes "parses parse (locations (db s))"
  shows "locations (db (snd (deleteOldLocations parse dst now s)))
           = filter (\<lambda>l. \<not> olderThan parse (now - 30 * 86400000 + dst) l) (locations (db s))"
  using assms by (simp add: deleteOldLocations_locations filter_kept thirtyDaysAgo_def)

theorem deleteOldLocations_shifted_witness:
  "parses isoParse (locations (db fourSamples))
   \<and> 1706788800000 - 30 * 86400000 + 3600000 = (1704200400000 :: int)
   \<and> map id_l (locations (db (snd (deleteOldLocations isoParse 3600000 1706788800000 fourSamples))))
       = [1, 4]"
proof -
  have p: "parses isoParse (locations (db fourSamples))"
    by code_simp
  have k: "map id_l (filter (\<lambda>l. \<not> olderThan isoParse 1704200400000 l) (locations (db fourSamples))) = [1, 4]"
    by code_simp
  show ?thesis
    using deleteOldLocations_shifted [OF p, of 3600000 1706788800000] p k by simp
qed

text \<open>
  Outside the data model: a sample whose timestamp the parser does not read as a date
  compares false against the cutoff, so \<open>deleteOldLocations\<close> removes it, whatever
  the clock says.
\<close>

theorem deleteOldLocations_unparsed:
  assumes "instant parse l = None"
  shows "l \<notin> set (locations (db (snd (deleteOldLocations parse dst now s))))"
  using assms by (simp add: deleteOldLocations_locations dateGe_def)

theorem deleteOldLocations_unparsed_witness:
  "instant isoParse
     \<lparr>id_l = 1, rider_id = Some 2, latitude = JNum (269 / 10), longitude = JNum (379 / 5),
      accuracy = JNull, speed = JNull, heading = JNull, timestamp = ''yesterday''\<rparr> = None
   \<and> locations (db (snd (insertLocation seeded (JNum 2) (JNum (269 / 10)) (JNum (379 / 5))
          JNull JNull JNull ''yesterday'')))
     = [\<lparr>id_l = 1, rider_id = Some 2, latitude = JNum (269 / 10), longitude = JNum (379 / 5),
         accuracy = JNull, speed = JNull, heading = JNull, timestamp = ''yesterday''\<rparr>]
   \<and> \<lparr>id_l = 1, rider_id = Some 2, latitude = JNum (269 / 10), longitude = JNum (379 / 5),
       accuracy = JNull, speed = JNull, heading = JNull, timestamp = ''yesterday''\<rparr>
     \<notin> set (locations (db (snd (deleteOldLocations isoParse 0 1704067200000
          (snd (insertLocation seeded (JNum 2) (JNum (269 / 10)) (JNum (379 / 5))
             JNull JNull JNull ''yesterday''))))))"
proof -
  let ?l = "\<lparr>id_l = 1, rider_id = Some 2, latitude = JNum (269 / 10), longitude = JNum (379 / 5),
      accuracy = JNull, speed = JNull, heading = JNull, timestamp = ''yesterday''\<rparr>"
  let ?s = "snd (insertLocation seeded (JNum 2) (JNum (269 / 10)) (JNum (379 / 5))
          JNull JNull JNull ''yesterday'')"
  have n: "instant isoParse ?l = None"
    by code_simp
  have ls: "locations (db ?s) = [?l]"
    by code_simp
  have "?l \<notin> set (locations (db (snd (deleteOldLocations isoParse 0 1704067200000 ?s))))"
    using n by (rule deleteOldLocations_unparsed)
  with n ls show ?thesis
    by blast
qed

subsection \<open>The ids of inserted samples\<close>

lemma maxId_Max: "maxId l ls = Max (set (map id_l (l # ls)))"
  using Max.set_eq_fold [of "id_l l" "map id_l ls"] by (simp add: maxId_def)

lemma below_nextId: "l \<in> set ls \<Longrightarrow> id_l l < nextId ls"
proof (cases ls)
  case Nil
  assume "l \<in> set ls"
  with Nil show ?thesis by simp
next
  case (Cons x xs)
  assume "l \<in> set ls"
  then have "id_l l \<in> set (map id_l (x # xs))"
    using Cons by auto
  then have "id_l l \<le> Max (set (map id_l (x # xs)))"
    by (intro Max_ge) auto
  then show ?thesis
    using Cons by (simp add: nextId_def maxId_Max)
qed

lemma maxId_snoc: "maxId x (xs @ [l]) = max (id_l l) (maxId x xs)"
  by (simp add: maxId_def)

lemma nextId_append:
  assumes "id_l l = nextId ls"
  shows "nextId (ls @ [l]) = nextId ls + 1"
proof (cases ls)
  case Nil
  with assms show ?thesis
    by (simp add: nextId_def maxId_def)
next
  case (Cons x xs)
  with assms show ?thesis
    by (simp add: nextId_def maxId_snoc)
qed

lemma insertLocation_fst:
  "fst (insertLocation s r la lo a sp h ts) = nextId (locations (db s))"
  by (simp add: insertLocation_def Let_def)

lemma insertLocation_nextId:
  "nextId (locations (db (snd (insertLocation s r la lo a sp h ts)))) = nextId (locations (db s)) + 1"
  by (simp add: insertLocation_def Let_def saveDatabase_def nextId_append)

text \<open>
  A deletion that keeps a sample holding the highest id leaves the next id as it was,
  so such a deletion satisfies the condition of \<open>topKept\<close>.
\<close>

lemma nextId_Max: "ls \<noteq> [] \<Longrightarrow> nextId ls = Max (set (map id_l ls)) + 1"
  by (cases ls) (simp_all add: nextId_def maxId_Max)

lemma nextId_filter_top:
  assumes "l \<in> set ls" and "nextId ls = id_l l + 1" and "P l"
  shows "nextId (filter P ls) = nextId ls"
proof -
  have l: "l \<in> set (filter P ls)"
    using assms(1,3) by simp
  then have ne: "filter P ls \<noteq> []"
    by (metis empty_iff list.set(1))
  have ne': "ls \<noteq> []"
    using assms(1) by auto
  have top: "Max (set (map id_l ls)) = id_l l"
    using assms(2) nextId_Max [OF ne'] by simp
  have "Max (set (map id_l (filter P ls))) = id_l l"
  proof (rule Max_eqI)
    show "finite (set (map id_l (filter P ls)))"
      by simp
    show "id_l l \<in> set (map id_l (filter P ls))"
      using l by (simp add: image_iff) blast
    fix y assume "y \<in> set (map id_l (filter P ls))"
    then have "y \<in> set (map id_l ls)"
      by auto
    then have "y \<le> Max (set (map id_l ls))"
      by (intro Max_ge) auto
    then show "y \<le> id_l l"
      using top by simp
  qed
  then show ?thesis
    using assms(2) nextId_Max [OF ne] by simp
qed

lemma deleteOldLocations_keeps_top:
  assumes "l \<in> set (locations (db s))" and "nextId (locations (db s)) = id_l l + 1"
    and "dateGe (instant parse l) (Some (thirtyDaysAgo dst now))"
  shows "nextId (locations (db (snd (deleteOldLocations parse dst now s)))) = nextId (locations (db s))"
  using assms by (simp add: deleteOldLocations_locations nextId_filter_top)

lemma assignedIds_from:
  "topKept parse dst s ops \<Longrightarrow>
   sorted_wrt (<) (assignedIds parse dst s ops)
   \<and> (\<forall>i\<in>set (assignedIds parse dst s ops). nextId (locations (db s)) \<le> i)"
proof (induction ops arbitrary: s)
  case Nil
  show ?case by simp
next
  case (Cons op ops)
  show ?case
  proof (cases op)
    case (InsertLocation r la lo a sp h ts)
    let ?s' = "snd (insertLocation s r la lo a sp h ts)"
    have "topKept parse dst ?s' ops"
      using Cons.prems InsertLocation by simp
    then have ih: "sorted_wrt (<) (assignedIds parse dst ?s' ops)"
      "\<forall>i\<in>set (assignedIds parse dst ?s' ops). nextId (locations (db s)) + 1 \<le> i"
      using Cons.IH [of ?s'] by (simp_all add: insertLocation_nextId)
    then show ?thesis
      using InsertLocation by (auto simp: insertLocation_fst)
  next
    case (DeleteOldLocations now)
    let ?s' = "snd (deleteOldLocations parse dst now s)"
    have "topKept parse dst ?s' ops" and "nextId (locations (db ?s')) = nextId (locations (db s))"
      using Cons.prems DeleteOldLocations by simp_all
    then show ?thesis
      using Cons.IH [of ?s'] DeleteOldLocations by simp
  qed
qed

text \<open>
  Claim C1, as amended. In a sequence of inserts and deletions in which no deletion
  removes the sample that holds the highest id (\<open>topKept\<close>), the ids the inserts
  return are strictly increasing, hence never repeated, and each is greater than every
  id the store held at the start.
\<close>

theorem assignedIds_increasing:
  assumes "topKept parse dst s ops"
  shows "sorted_wrt (<) (assignedIds parse dst s ops)
         \<and> distinct (assignedIds parse dst s ops)
         \<and> (\<forall>i\<in>set (assignedIds parse dst s ops). \<forall>l\<in>set (locations (db s)). id_l l < i)"
proof -
  have s: "sorted_wrt (<) (assignedIds parse dst s ops)"
    and b: "\<forall>i\<in>set (assignedIds parse dst s ops). nextId (locations (db s)) \<le> i"
    using assignedIds_from [OF assms] by simp_all
  have "distinct (assignedIds parse dst s ops)"
    using s by (simp add: strict_sorted_iff)
  moreover have "\<forall>i\<in>set (assignedIds parse dst s ops). \<forall>l\<in>set (locations (db s)). id_l l < i"
    using b below_nextId by fastforce
  ultimately show ?thesis
    using s by simp
qed

theorem assignedIds_increasing_witness:
  "topKept isoParse 0 seeded
     [InsertLocation (JNum 2) (JNum (269 / 10)) (JNum (379 / 5)) JNull JNull JNull ''2024-01-01T00:00:00.000Z'',
      InsertLocation (JNum 2) (JNum (269 / 10)) (JNum (379 / 5)) JNull JNull JNull ''2024-01-20T00:00:00.000Z'',
      DeleteOldLocations 1707523200000,
      InsertLocation (JNum 2) (JNum (269 / 10)) (JNum (379 / 5)) JNull JNull JNull ''2024-02-10T00:00:00.000Z'']
   \<and> assignedIds isoParse 0 seeded
     [InsertLocation (JNum 2) (JNum (269 / 10)) (JNum (379 / 5)) JNull JNull JNull ''2024-01-01T00:00:00.000Z'',
      InsertLocation (JNum 2) (JNum (269 / 10)) (JNum (379 / 5)) JNull JNull JNull ''2024-01-20T00:00:00.000Z'',
      DeleteOldLocations 1707523200000,
      InsertLocation (JNum 2) (JNum (269 / 10)) (JNum (379 / 5)) JNull JNull JNull ''2024-02-10T00:00:00.000Z'']
     = [1, 2, 3]
   \<and> sorted_wrt (<) (assignedIds isoParse 0 seeded
     [InsertLocation (JNum 2) (JNum (269 / 10)) (JNum (379 / 5)) JNull JNull JNull ''2024-01-01T00:00:00.000Z'',
      InsertLocation (JNum 2) (JNum (269 / 10)) (JNum (379 / 5)) JNull JNull JNull ''2024-01-20T00:00:00.000Z'',
      DeleteOldLocations 1707523200000,
      InsertLocation (JNum 2) (JNum (269 / 10)) (JNum (379 / 5)) JNull JNull JNull ''2024-02-10T00:00:00.000Z''])"
proof -
  let ?ops = "[InsertLocation (JNum 2) (JNum (269 / 10)) (JNum (379 / 5)) JNull JNull JNull ''2024-01-01T00:00:00.000Z'',
      InsertLocation (JNum 2) (JNum (269 / 10)) (JNum (379 / 5)) JNull JNull JNull ''2024-01-20T00:00:00.000Z'',
      DeleteOldLocations 1707523200000,
      InsertLocation (JNum 2) (JNum (269 / 10)) (JNum (379 / 5)) JNull JNull JNull ''2024-02-10T00:00:00.000Z'']"
  have k: "topKept isoParse 0 seeded ?ops"
    by code_simp
  have v: "assignedIds isoParse 0 seeded ?ops = [1, 2, 3]"
    by code_simp
  show ?thesis
    using assignedIds_increasing [OF k] k v by simp
qed

text \<open>
  Claim C1 as stated fails: a sample is inserted on 1 January 2024 and gets id 1, the
  deletion that runs on 1 March removes it, and the next insert gets id 1 again.
\<close>

theorem assignedIds_reused:
  "assignedIds isoParse 0 seeded
     [InsertLocation (JNum 2) (JNum (269 / 10)) (JNum (379 / 5)) JNull JNull JNull ''2024-01-01T00:00:00.000Z'',
      DeleteOldLocations 1709251200000,
      InsertLocation (JNum 2) (JNum (269 / 10)) (JNum (379 / 5)) JNull JNull JNull ''2024-03-01T00:00:00.000Z'']
   = [1, 1]"
  by code_simp

subsection \<open>Looking a rider up by a string\<close>

lemma decimal_digit_code:
  assumes "radixDigit 10 c"
  shows "48 \<le> (of_char c :: int) \<and> (of_char c :: int) \<le> 57"
  using assms by (auto simp: radixDigit_def digitValue_def Let_def split: if_splits)

lemma decimal_digit_plain:
  assumes "radixDigit 10 c"
  shows "c \<noteq> CHR ''-''" and "c \<noteq> CHR ''+''"
  using assms
  by (auto simp: radixDigit_def digitValue_def Let_def split: if_splits)

lemma skipWhiteSpace_digit:
  assumes "radixDigit 10 c"
  shows "skipWhiteSpace (c # t) = c # t"
proof -
  have c: "48 \<le> (of_char c :: int) \<and> (of_char c :: int) \<le> 57"
    using assms by (rule decimal_digit_code)
  then have n1: "\<not> whiteSpace1 (of_char c)"
    and n2: "\<not> whiteSpace2 (of_char c) x"
    and n3: "\<not> whiteSpace3 (of_char c) x y" for x y
    by (auto simp: whiteSpace1_def whiteSpace2_def whiteSpace3_def)
  show ?thesis
  proof (cases t)
    case Nil
    then show ?thesis
      using n1 by simp
  next
    case (Cons b t')
    show ?thesis
    proof (cases t')
      case Nil
      then show ?thesis
        using Cons n1 n2 by simp
    next
      case (Cons d t'')
      then show ?thesis
        using \<open>t = b # t'\<close> n1 n2 n3 by simp
    qed
  qed
qed

lemma stripPrefix_cases: "stripPrefix S = (10, S) \<or> hexPrefixed S"
  by (auto simp: stripPrefix_def hexPrefixed_def split: list.splits)

lemma hexPrefixed_decimal: "hexPrefixed S \<Longrightarrow> decimalPrefix S \<noteq> []"
  by (auto simp: stripPrefix_def hexPrefixed_def decimalPrefix_def radixDigit_def digitValue_def
      split: list.splits if_splits)

lemma parseIntString_decimal:
  assumes "decimalPrefix str \<noteq> []" and "\<not> hexPrefixed str"
  shows "parseIntString str = Some (digitsValue 10 (decimalPrefix str))"
proof -
  obtain c t where str: "str = c # t" and c: "radixDigit 10 c"
    using assms(1) by (cases str) (auto simp: decimalPrefix_def split: if_splits)
  have "skipWhiteSpace str = str"
    using str skipWhiteSpace_digit [OF c] by simp
  moreover have "stripSign str = (1, str)"
    using str decimal_digit_plain [OF c] by (simp add: stripSign_def)
  moreover have "stripPrefix str = (10, str)"
    using stripPrefix_cases [of str] assms(2) by simp
  ultimately show ?thesis
    using assms(1) by (simp add: parseIntString_def decimalPrefix_def)
qed

lemma parseIntString_no_digit:
  assumes "decimalPrefix (unsigned str) = []"
  shows "parseIntString str = None"
proof -
  obtain sg where sg: "stripSign (skipWhiteSpace str) = (sg, unsigned str)"
    by (simp add: unsigned_def prod_eq_iff)
  have "stripPrefix (unsigned str) = (10, unsigned str)"
    using stripPrefix_cases [of "unsigned str"] hexPrefixed_decimal assms by blast
  then show ?thesis
    using sg assms by (simp add: parseIntString_def decimalPrefix_def)
qed

lemma find_unique:
  "distinct (map f xs) \<Longrightarrow> x \<in> set xs \<Longrightarrow> find (\<lambda>y. f y = f x) xs = Some x"
  by (induction xs) (auto simp: image_iff)

text \<open>
  Claim C10, as amended. In a store with unique rider ids, \<open>getRiderById\<close> applied to a
  string that starts with a decimal digit, does not start with \<open>0x\<close> or \<open>0X\<close>, and
  whose longest prefix of decimal digits has the value of the id of a rider \<open>r\<close> of the
  store, returns \<open>r\<close>. Applied to a string that has no decimal digit after its leading
  white space (that of JavaScript, U+00A0 and the other Unicode spaces included) and
  one optional sign, it returns nothing.
\<close>

theorem getRiderById_string:
  "(distinct (map id_r (riders (db s))) \<and> r \<in> set (riders (db s))
      \<and> decimalPrefix str \<noteq> [] \<and> \<not> hexPrefixed str
      \<and> digitsValue 10 (decimalPrefix str) = id_r r
    \<longrightarrow> getRiderById s (JStr str) = Some r)
   \<and> (decimalPrefix (unsigned str) = [] \<longrightarrow> getRiderById s (JStr str) = None)"
proof (intro conjI impI)
  assume a: "distinct (map id_r (riders (db s))) \<and> r \<in> set (riders (db s))
      \<and> decimalPrefix str \<noteq> [] \<and> \<not> hexPrefixed str
      \<and> digitsValue 10 (decimalPrefix str) = id_r r"
  then have pi: "parseInt (JStr str) = Some (id_r r)"
    by (simp add: parseInt_def parseIntString_decimal)
  have "getRiderById s (JStr str) = find (\<lambda>y. id_r y = id_r r) (riders (db s))"
    unfolding getRiderById_def pi by simp
  then show "getRiderById s (JStr str) = Some r"
    using a by (simp add: find_unique)
next
  assume "decimalPrefix (unsigned str) = []"
  then have "parseInt (JStr str) = None"
    by (simp add: parseInt_def parseIntString_no_digit)
  then show "getRiderById s (JStr str) = None"
    by (simp add: getRiderById_def strictEq_def find_None_iff)
qed

theorem getRiderById_string_witness:
  "distinct (map id_r (riders (db seeded)))
   \<and> decimalPrefix ''2abc'' = ''2'' \<and> \<not> hexPrefixed ''2abc''
   \<and> map id_r (riders (db seeded)) = [1, 2, 3]
   \<and> digitsValue 10 (decimalPrefix ''2abc'') = 2
   \<and> map_option name (getRiderById seeded (JStr ''2abc'')) = Some ''Jagdish Suthar''
   \<and> decimalPrefix (unsigned ''abc'') = []
   \<and> getRiderById seeded (JStr ''abc'') = None"
proof -
  let ?r = "riders (db seeded) ! 1"
  have d: "distinct (map id_r (riders (db seeded)))"
    by code_simp
  have ids: "map id_r (riders (db seeded)) = [1, 2, 3]"
    by code_simp
  have r: "?r \<in> set (riders (db seeded))"
    by code_simp
  have p: "decimalPrefix ''2abc'' = ''2''" "\<not> hexPrefixed ''2abc''"
    by code_simp+
  have v: "digitsValue 10 (decimalPrefix ''2abc'') = id_r ?r" "id_r ?r = 2"
    by code_simp+
  have n: "name ?r = ''Jagdish Suthar''"
    by code_simp
  have u: "decimalPrefix (unsigned ''abc'') = []"
    by code_simp
  have "getRiderById seeded (JStr ''2abc'') = Some ?r"
    using getRiderById_string [of seeded ?r "''2abc''"] d r p v by simp
  moreover have "getRiderById seeded (JStr ''abc'') = None"
    using getRiderById_string [of seeded ?r "''abc''"] u by simp
  ultimately show ?thesis
    using d ids p v n u by simp
qed

text \<open>
  Claim C10 as stated fails on its second half: the string \<open>+2\<close> has no leading
  digit, and the lookup returns rider 2, because \<open>parseInt\<close> reads a sign.
\<close>

theorem getRiderById_signed_string:
  "decimalPrefix ''+2'' = [] 
   \<and> map_option id_r (getRiderById seeded (JStr ''+2'')) = Some 2
   \<and> map_option name (getRiderById seeded (JStr ''+2'')) = Some ''Jagdish Suthar''"
  by code_simp

text \<open>
  White space before the digits is skipped as well, the no-break space U+00A0 (bytes
  C2 A0) among it: the path \<open>/api/riders/%C2%A02\<close> finds rider 2.
\<close>

lemma getRiderById_no_break_space:
  "map_option id_r (getRiderById seeded (JStr [CHR 0xC2, CHR 0xA0, CHR ''2''])) = Some 2
   \<and> unsigned [CHR 0xC2, CHR 0xA0, CHR ''2''] = ''2''"
  by code_simp

subsection \<open>Presence and the persisted status\<close>





lemma updateFirst_no_match: "\<forall>x\<in>set xs. \<not> P x \<Longrightarrow> updateFirst P f xs = xs"
  by (induction xs) auto

lemma updateRiderStatus_riders:
  assumes "parseInt v = Some k"
  shows "riders (db (updateRiderStatus now s st v))
           = updateFirst (\<lambda>r. id_r r = k) (\<lambda>r. r\<lparr>status := st, updated_at := now\<rparr>) (riders (db s))"
proof (cases "getRiderById s v")
  case None
  then have "\<forall>x\<in>set (riders (db s)). \<not> id_r x = k"
    using assms by (simp add: getRiderById_def find_None_iff)
  then show ?thesis
    using None by (simp add: updateRiderStatus_def updateFirst_no_match)
next
  case (Some r)
  then show ?thesis
    using assms by (simp add: updateRiderStatus_def saveDatabase_def)
qed

lemma hasEntry_update:
  "hasEntry (sv\<lparr>activeRiders := AList.update (JNum (of_int k)) p (activeRiders sv)\<rparr>) k'
     \<longleftrightarrow> k' = k \<or> hasEntry sv k'"
  by (auto simp: hasEntry_def AList.update_conv')

lemma hasEntry_delete:
  "hasEntry (sv\<lparr>activeRiders := AList.delete (JNum (of_int k)) (activeRiders sv)\<rparr>) k'
     \<longleftrightarrow> k' \<noteq> k \<and> hasEntry sv k'"
  by (auto simp: hasEntry_def AList.delete_conv')

lemma hasEntry_frame [simp]:
  "hasEntry (sv\<lparr>store_of := s\<rparr>) k = hasEntry sv k"
  "hasEntry (emit ev obj sv) k = hasEntry sv k"
  by (simp_all add: hasEntry_def emit_def)















subsection \<open>Status updates and the closing of a socket\<close>

lemma find_updateFirst:
  assumes "distinct (map id_r xs)" and "r \<in> set xs"
  shows "find (\<lambda>y. id_r y = id_r r)
           (updateFirst (\<lambda>y. id_r y = id_r r) (\<lambda>y. y\<lparr>status := st, updated_at := now\<rparr>) xs)
         = Some (r\<lparr>status := st, updated_at := now\<rparr>)"
  using assms
proof (induction xs)
  case Nil
  then show ?case by simp
next
  case (Cons x xs)
  show ?case
  proof (cases "id_r x = id_r r")
    case True
    have "r \<notin> set xs"
    proof
      assume "r \<in> set xs"
      then have "id_r r \<in> set (map id_r xs)"
        by simp
      then show False
        using Cons.prems(1) True by simp
    qed
    then have "x = r"
      using Cons.prems(2) by simp
    then show ?thesis
      by simp
  next
    case False
    then have "r \<in> set xs"
      using Cons.prems(2) by auto
    then show ?thesis
      using False Cons.IH Cons.prems(1) by simp
  qed
qed

text \<open>
  In a store with unique rider ids, after \<open>updateRiderStatus\<close> for the id of a rider
  \<open>r\<close>, looking that id up returns \<open>r\<close> with the new status and the new
  \<open>updated_at\<close>, and no other field changed.
\<close>

theorem updateRiderStatus_reflected:
  assumes "distinct (map id_r (riders (db s)))" and "r \<in> set (riders (db s))"
    and "parseInt v = Some (id_r r)"
  shows "getRiderById (updateRiderStatus now s st v) v = Some (r\<lparr>status := st, updated_at := now\<rparr>)"
proof -
  have "getRiderById (updateRiderStatus now s st v) v
          = find (\<lambda>y. id_r y = id_r r) (riders (db (updateRiderStatus now s st v)))"
    unfolding getRiderById_def assms(3) by simp
  then show ?thesis
    using assms by (simp add: updateRiderStatus_riders find_updateFirst)
qed

theorem updateRiderStatus_reflected_witness:
  "distinct (map id_r (riders (db seeded)))
   \<and> parseInt (JStr ''3'') = Some 3
   \<and> map_option status (getRiderById seeded (JStr ''3'')) = Some ''inactive''
   \<and> map_option status
        (getRiderById (updateRiderStatus ''2024-01-02T00:00:00.000Z'' seeded ''active'' (JStr ''3''))
           (JStr ''3'')) = Some ''active''
   \<and> map_option updated_at
        (getRiderById (updateRiderStatus ''2024-01-02T00:00:00.000Z'' seeded ''active'' (JStr ''3''))
           (JStr ''3'')) = Some ''2024-01-02T00:00:00.000Z''"
proof -
  let ?r = "riders (db seeded) ! 2"
  have d: "distinct (map id_r (riders (db seeded)))"
    by code_simp
  have m: "?r \<in> set (riders (db seeded))"
    by code_simp
  have p: "parseInt (JStr ''3'') = Some (id_r ?r)" and p': "parseInt (JStr ''3'') = Some 3"
    by code_simp+
  have b: "map_option status (getRiderById seeded (JStr ''3'')) = Some ''inactive''"
    by code_simp
  show ?thesis
    using updateRiderStatus_reflected [OF d m p, of "''2024-01-02T00:00:00.000Z''" "''active''"] d p' b
    by simp
qed

text \<open>
  When a socket closes, the first entry of the map that carries its socket id, and only
  that one, is deleted; the rider of its key is set to \<open>inactive\<close> and one
  \<open>rider-status\<close> event is emitted, even when a later entry carries the same socket id.
\<close>

theorem disconnect_first_match:
  assumes "find (\<lambda>e. socketId (snd e) = sock) (activeRiders sv) = Some e"
  shows "activeRiders (disconnect sock now sv) = AList.delete (fst e) (activeRiders sv)
         \<and> emitted (disconnect sock now sv)
           = emitted sv @
             [(''rider-status'',
               [(''riderId'', fst e), (''riderName'', name_p (snd e)),
                (''status'', JStr ''inactive''), (''timestamp'', JStr now)])]
         \<and> store_of (disconnect sock now sv)
           = updateRiderStatus now (store_of sv) ''inactive'' (fst e)"
  using assms by (simp add: disconnect_def dropRider_def Let_def emit_def)

theorem disconnect_first_match_witness:
  "find (\<lambda>e. socketId (snd e) = ''A'')
     (activeRiders
       (run (startServer True ''2024-01-01T00:00:00.000Z'')
          [RiderConnect ''A'' ''2024-01-02T00:00:00.000Z''
             [''riderId'' \<mapsto> JNum 1, ''riderName'' \<mapsto> JStr ''John Doe''],
           RiderConnect ''A'' ''2024-01-02T00:00:01.000Z''
             [''riderId'' \<mapsto> JNum 2, ''riderName'' \<mapsto> JStr ''Jagdish Suthar'']]))
     = Some (JNum 1, \<lparr>socketId = ''A'', name_p = JStr ''John Doe'',
                      connectedAt = ''2024-01-02T00:00:00.000Z''\<rparr>)
   \<and> map fst (activeRiders (disconnect ''A'' ''2024-01-02T00:00:02.000Z''
       (run (startServer True ''2024-01-01T00:00:00.000Z'')
          [RiderConnect ''A'' ''2024-01-02T00:00:00.000Z''
             [''riderId'' \<mapsto> JNum 1, ''riderName'' \<mapsto> JStr ''John Doe''],
           RiderConnect ''A'' ''2024-01-02T00:00:01.000Z''
             [''riderId'' \<mapsto> JNum 2, ''riderName'' \<mapsto> JStr ''Jagdish Suthar'']])))
     = [JNum 2]
   \<and> map status (riders (db (store_of (disconnect ''A'' ''2024-01-02T00:00:02.000Z''
       (run (startServer True ''2024-01-01T00:00:00.000Z'')
          [RiderConnect ''A'' ''2024-01-02T00:00:00.000Z''
             [''riderId'' \<mapsto> JNum 1, ''riderName'' \<mapsto> JStr ''John Doe''],
           RiderConnect ''A'' ''2024-01-02T00:00:01.000Z''
             [''riderId'' \<mapsto> JNum 2, ''riderName'' \<mapsto> JStr ''Jagdish Suthar'']])))))
     = [''inactive'', ''active'', ''inactive'']"
proof -
  let ?sv = "run (startServer True ''2024-01-01T00:00:00.000Z'')
          [RiderConnect ''A'' ''2024-01-02T00:00:00.000Z''
             [''riderId'' \<mapsto> JNum 1, ''riderName'' \<mapsto> JStr ''John Doe''],
           RiderConnect ''A'' ''2024-01-02T00:00:01.000Z''
             [''riderId'' \<mapsto> JNum 2, ''riderName'' \<mapsto> JStr ''Jagdish Suthar'']]"
  let ?e = "(JNum 1, \<lparr>socketId = ''A'', name_p = JStr ''John Doe'',
                      connectedAt = ''2024-01-02T00:00:00.000Z''\<rparr>)"
  have f: "find (\<lambda>e. socketId (snd e) = ''A'') (activeRiders ?sv) = Some ?e"
    by code_simp
  have k: "map fst (AList.delete (fst ?e) (activeRiders ?sv)) = [JNum 2]"
    by code_simp
  have s: "map status (riders (db (updateRiderStatus ''2024-01-02T00:00:02.000Z'' (store_of ?sv)
             ''inactive'' (fst ?e)))) = [''inactive'', ''active'', ''inactive'']"
    by code_simp
  show ?thesis
    using disconnect_first_match [OF f, of "''2024-01-02T00:00:02.000Z''"] f k s by simp
qed

end
